theory Spec2Isabelle
  imports Main
begin

section \<open>RollWin: the deploy and rollback workflows of src/App.vue\<close>

text \<open>
  The script part of \<^verbatim>\<open>src/App.vue\<close> is embedded function by function.
  Objects that the script mutates through a shared reference (the \<^verbatim>\<open>ProjectConfig\<close>
  objects held in \<^verbatim>\<open>projects.value\<close> and handed to \<^verbatim>\<open>deployProject\<close> and
  \<^verbatim>\<open>rollbackVersion\<close>) live in an explicit store; every call to the outside world
  (dialogs, the shell command, file writes, the Tauri \<^verbatim>\<open>invoke\<close>) is appended to a log
  of effects, and what the outside world answers is a parameter of the operation.
  An \<^verbatim>\<open>async\<close> function is embedded as one uninterrupted run: the interleaving of two
  operations at their \<^verbatim>\<open>await\<close> points is not part of the model.
\<close>

subsection \<open>JavaScript strings and numbers\<close>

text \<open>
  Strings are lists of 8-bit characters, so the model covers the strings whose UTF-16 code
  units are below 256. \<^verbatim>\<open>String.prototype.split\<close> with a one-character separator:
  the empty string splits into one empty part.
\<close>

fun split_on :: "char \<Rightarrow> string \<Rightarrow> string list" where
  "split_on sep [] = [[]]"
| "split_on sep (c # cs) =
     (if c = sep then [] # split_on sep cs
      else (case split_on sep cs of
              [] \<Rightarrow> [[c]]
            | part # parts \<Rightarrow> (c # part) # parts))"

text \<open>Array indexing \<^verbatim>\<open>parts[i]\<close>: \<^verbatim>\<open>undefined\<close> (here \<open>None\<close>) past the end.\<close>

fun index :: "'a list \<Rightarrow> nat \<Rightarrow> 'a option" where
  "index [] i = None"
| "index (x # xs) 0 = Some x"
| "index (x # xs) (Suc i) = index xs i"

text \<open>\<^verbatim>\<open>x || d\<close> on an optional string: \<^verbatim>\<open>undefined\<close> and \<^verbatim>\<open>''\<close> are the falsy values.\<close>

definition truthy :: "string option \<Rightarrow> bool" where
  "truthy x = (case x of None \<Rightarrow> False | Some v \<Rightarrow> v \<noteq> [])"

definition or_else :: "string option \<Rightarrow> string \<Rightarrow> string" where
  "or_else x d = (case x of None \<Rightarrow> d | Some v \<Rightarrow> if v = [] then d else v)"

text \<open>
  \<^verbatim>\<open>s.replace(pat, rep)\<close> with a string pattern replaces the first occurrence only.
\<close>

fun replace_first :: "string \<Rightarrow> string \<Rightarrow> string \<Rightarrow> string" where
  "replace_first pat rep [] = (if pat = [] then rep else [])"
| "replace_first pat rep (c # cs) =
     (if take (length pat) (c # cs) = pat then rep @ drop (length pat) (c # cs)
      else c # replace_first pat rep cs)"

definition startsWith :: "string \<Rightarrow> string \<Rightarrow> bool" where
  "startsWith s pre = (take (length pre) s = pre)"

text \<open>
  A JavaScript number as this program uses it: the result of \<^verbatim>\<open>parseInt\<close>, possibly
  incremented, and then only tested with \<^verbatim>\<open>isNaN\<close> and rendered. \<open>Num n\<close> stands for the
  double of the integer \<open>n\<close>, which is exact for \<open>\<bar>n\<bar> \<le> MAX_SAFE_INTEGER\<close>; beyond that
  JavaScript rounds and the model does not. Negative zero is \<open>Num 0\<close>: it renders as
  \<^verbatim>\<open>0\<close>, is not NaN, and \<^verbatim>\<open>-0 + 1\<close> is \<^verbatim>\<open>1\<close>.
\<close>

datatype number = NaN | Num int

definition MAX_SAFE_INTEGER :: nat where
  "MAX_SAFE_INTEGER = 2 ^ 53 - 1"

definition isNaN :: "number \<Rightarrow> bool" where
  "isNaN x = (case x of NaN \<Rightarrow> True | Num n \<Rightarrow> False)"

definition num_plus :: "number \<Rightarrow> int \<Rightarrow> number" where
  "num_plus x k = (case x of NaN \<Rightarrow> NaN | Num n \<Rightarrow> Num (n + k))"

text \<open>The characters \<^verbatim>\<open>parseInt\<close> skips at the start (StrWhiteSpaceChar below 256).\<close>

definition is_white :: "char \<Rightarrow> bool" where
  "is_white c = (of_char c \<in> {9, 10, 11, 12, 13, 32, 160 :: nat})"

definition digit_value :: "char \<Rightarrow> nat option" where
  "digit_value c =
     (let n = (of_char c :: nat) in
      if 48 \<le> n \<and> n \<le> 57 then Some (n - 48)
      else if 97 \<le> n \<and> n \<le> 122 then Some (n - 87)
      else if 65 \<le> n \<and> n \<le> 90 then Some (n - 55)
      else None)"

definition is_radix_digit :: "nat \<Rightarrow> char \<Rightarrow> bool" where
  "is_radix_digit R c = (case digit_value c of None \<Rightarrow> False | Some d \<Rightarrow> d < R)"

definition digits_value :: "nat \<Rightarrow> string \<Rightarrow> nat" where
  "digits_value R Z = foldl (\<lambda>acc c. acc * R + (case digit_value c of None \<Rightarrow> 0 | Some d \<Rightarrow> d)) 0 Z"

text \<open>
  \<^verbatim>\<open>parseInt(string)\<close> with no radix argument, step by step as ECMAScript defines it:
  skip white space, read a sign, switch to radix 16 after \<^verbatim>\<open>0x\<close> or \<^verbatim>\<open>0X\<close>, take the longest
  prefix of digits of the radix, and answer NaN when that prefix is empty.
\<close>

definition parseInt :: "string \<Rightarrow> number" where
  "parseInt inputString =
     (let S = dropWhile is_white inputString;
          sign = (case S of [] \<Rightarrow> 1 | c # cs \<Rightarrow> if c = CHR ''-'' then - 1 else (1 :: int));
          S1 = (case S of [] \<Rightarrow> S | c # cs \<Rightarrow> if c = CHR ''+'' \<or> c = CHR ''-'' then cs else S);
          hex = (take 2 S1 = ''0x'' \<or> take 2 S1 = ''0X'');
          R = (if hex then 16 else 10);
          S2 = (if hex then drop 2 S1 else S1);
          Z = takeWhile (is_radix_digit R) S2
      in if Z = [] then NaN else Num (sign * int (digits_value R Z)))"

text \<open>Rendering a number in a template literal (Number::toString, radix 10).\<close>

definition digit_char :: "nat \<Rightarrow> char" where
  "digit_char d = char_of (48 + d)"

fun decimal :: "nat \<Rightarrow> string" where
  "decimal n = (if n < 10 then [digit_char n] else decimal (n div 10) @ [digit_char (n mod 10)])"

definition toString :: "number \<Rightarrow> string" where
  "toString x =
     (case x of
        NaN \<Rightarrow> ''NaN''
      | Num n \<Rightarrow> if n < 0 then CHR ''-'' # decimal (nat (- n)) else decimal (nat n))"

text \<open>The template literal \<^verbatim>\<open>`${major}.${minor}.${patch}`\<close>.\<close>

definition dotted :: "number \<Rightarrow> number \<Rightarrow> number \<Rightarrow> string" where
  "dotted major minor patch = toString major @ ''.'' @ toString minor @ ''.'' @ toString patch"

subsection \<open>The data model (lines 9-31 and 213-216)\<close>

record ServerInfo =
  host :: string
  username :: string
  password :: string
  remotePath :: string

datatype Environment = env_prod | env_test

text \<open>
  \<^verbatim>\<open>interface ProjectConfig\<close>. The field \<^verbatim>\<open>id\<close> is \<open>pid\<close> here; an optional field
  that is \<^verbatim>\<open>undefined\<close> is \<open>None\<close>. The operations below only read \<open>serverInfo\<close>, so it
  is held by value.
\<close>

record ProjectConfig =
  pid :: string
  name :: string
  path :: string
  projectPath :: string
  buildCommand :: "string option"
  environment :: Environment
  version :: string
  previousVersion :: "string option"
  lastDeployTime :: "string option"
  lastRollbackTime :: "string option"
  serverInfo :: ServerInfo

text \<open>The status texts shown while an operation runs, in the order of the source.\<close>

datatype status_text =
    PreparingDeploy | RunningBuild | PreparingFiles | Uploading | DeployDone | DeployFailed
  | PreparingRollback | RollingBack | RollbackDone | RollbackFailed

record DeployStatus =
  isDeploying :: bool
  status :: status_text

subsection \<open>Errors, messages and effects\<close>

text \<open>
  What a \<^verbatim>\<open>throw\<close> carries. The build step wraps whatever went wrong inside it
  (lines 239-244); a rejected \<^verbatim>\<open>invoke\<close> and a failed file write carry the text the
  outside world gave.
\<close>

datatype build_failure = ExitStderr string | ExitNoStderr | ExecuteThrew string

datatype error =
    BuildCommandFailed build_failure
  | InvokeRejected string
  | WriteRejected string
  | NoPreviousVersion
  | MalformedVersion

datatype msg =
    RemotePathEmpty
  | DeployFailedMsg error
  | RollbackFailedMsg error
  | NameOrPathMissing
  | BuildCommandFormat
  | SaveOk
  | SaveFailedMsg string
  | EditOk
  | EditFailedMsg string

text \<open>
  \<open>VersionInfo\<close> is the object written to \<^verbatim>\<open>version.json\<close>: version, previousVersion,
  updateTime, projectName, environment. \<open>TransferArgs\<close> is the argument object of the two
  transfer commands: projectName, path, env, host, username, password, remotePath.
\<close>

datatype versionInfo = VersionInfo string "string option" string string Environment

datatype transferArgs = TransferArgs string string Environment string string string string

datatype effect =
    Message msg
  | Ask
  | Execute string "string list" string
  | WriteVersionJson string versionInfo
  | WriteProjectsJson "ProjectConfig list"
  | Invoke string transferArgs
  | ConsoleError

text \<open>
  The answers of the outside world to one operation. A result of type \<open>string option\<close> is
  \<open>None\<close> when the call returned and \<open>Some e\<close> when it threw \<open>e\<close>. The dialogs and the
  path helpers (\<^verbatim>\<open>message\<close>, \<^verbatim>\<open>ask\<close>, \<^verbatim>\<open>join\<close>, \<^verbatim>\<open>appDataDir\<close>) are taken to return.
\<close>

record io =
  isWindows :: bool
  confirmed :: bool
  execute_result :: "string + (int option \<times> string)"
  writeVersion_result :: "string option"
  writeConfig_result :: "string option"
  updateTime :: string
  invoke_result :: "string option"
  operationTime :: string
  finalWrite_result :: "string option"
  appDir_result :: "string option"
  timestamp :: string

subsection \<open>The application state\<close>

text \<open>
  \<open>heap\<close> is the store of \<^verbatim>\<open>ProjectConfig\<close> objects, \<open>projects\<close> the references held by
  \<^verbatim>\<open>projects.value\<close>, \<open>next_ref\<close> the next unused reference; the two maps are
  \<^verbatim>\<open>deployingProjects\<close> and \<^verbatim>\<open>deployStatusMap\<close>; \<open>effects\<close> is the log, oldest first.
\<close>

record app =
  heap :: "nat \<Rightarrow> ProjectConfig"
  next_ref :: nat
  projects :: "nat list"
  deployingProjects :: "string \<rightharpoonup> bool"
  deployStatusMap :: "string \<rightharpoonup> DeployStatus"
  newProject :: ProjectConfig
  showAddDialog :: bool
  showEditDialog :: bool
  editingProject :: "ProjectConfig option"
  effects :: "effect list"

definition emit :: "effect \<Rightarrow> app \<Rightarrow> app" where
  "emit e s = s\<lparr>effects := effects s @ [e]\<rparr>"

definition update_project :: "nat \<Rightarrow> (ProjectConfig \<Rightarrow> ProjectConfig) \<Rightarrow> app \<Rightarrow> app" where
  "update_project r f s = s\<lparr>heap := (heap s)(r := f (heap s r))\<rparr>"

text \<open>\<^verbatim>\<open>{ ...p }\<close> stored in a new object.\<close>

definition alloc :: "ProjectConfig \<Rightarrow> app \<Rightarrow> nat \<times> app" where
  "alloc p s = (next_ref s, s\<lparr>heap := (heap s)(next_ref s := p), next_ref := Suc (next_ref s)\<rparr>)"

text \<open>What \<^verbatim>\<open>JSON.stringify(projects.value)\<close> serialises.\<close>

definition snapshot :: "app \<Rightarrow> ProjectConfig list" where
  "snapshot s = map (heap s) (projects s)"

subsection \<open>The in-flight flag (lines 34-43)\<close>

definition setProjectDeploying :: "string \<Rightarrow> bool \<Rightarrow> app \<Rightarrow> app" where
  "setProjectDeploying projectId deploying s =
     (let s1 = s\<lparr>deployingProjects := (deployingProjects s)(projectId \<mapsto> deploying)\<rparr>
      in if \<not> deploying then s1\<lparr>deployStatusMap := (deployStatusMap s1)(projectId := None)\<rparr>
         else s1)"

definition isProjectDeploying :: "string \<Rightarrow> app \<Rightarrow> bool" where
  "isProjectDeploying projectId s =
     (case deployingProjects s projectId of None \<Rightarrow> False | Some b \<Rightarrow> b)"

text \<open>\<^verbatim>\<open>deployStatusMap.value.set(project.id, { isDeploying: true, status: ... })\<close>.\<close>

definition set_status :: "string \<Rightarrow> status_text \<Rightarrow> app \<Rightarrow> app" where
  "set_status projectId phase s =
     s\<lparr>deployStatusMap := (deployStatusMap s)(projectId \<mapsto> \<lparr>isDeploying = True, status = phase\<rparr>)\<rparr>"

subsection \<open>validateBuildCommand (lines 154-162)\<close>

text \<open>\<^verbatim>\<open>\w\<close> of a regular expression without flags: letters, digits and the underscore.\<close>

definition is_word_char :: "char \<Rightarrow> bool" where
  "is_word_char c =
     (let n = (of_char c :: nat) in
      (48 \<le> n \<and> n \<le> 57) \<or> (65 \<le> n \<and> n \<le> 90) \<or> n = 95 \<or> (97 \<le> n \<and> n \<le> 122))"

text \<open>
  \<^verbatim>\<open>/^npm run [\w:\-]+$/.test(command)\<close>: without the \<^verbatim>\<open>m\<close> flag \<^verbatim>\<open>^\<close> and \<^verbatim>\<open>$\<close> are the
  two ends of the string.
\<close>

definition regex_test :: "string \<Rightarrow> bool" where
  "regex_test command =
     (take 8 command = ''npm run '' \<and> drop 8 command \<noteq> [] \<and>
      list_all (\<lambda>c. is_word_char c \<or> c = CHR '':'' \<or> c = CHR ''-'') (drop 8 command))"

definition validateBuildCommand :: "string option \<Rightarrow> bool" where
  "validateBuildCommand command =
     (if \<not> truthy command then True
      else (case command of None \<Rightarrow> True | Some c \<Rightarrow> regex_test c))"

subsection \<open>deployProject (lines 219-312)\<close>

text \<open>
  A step of a \<^verbatim>\<open>try\<close> block returns the state it reached and, when it threw, the
  error: mutations made before a \<^verbatim>\<open>throw\<close> stay.
\<close>

type_synonym outcome = "error option \<times> app"

text \<open>Lines 229-245: the optional build command.\<close>

definition deploy_build :: "io \<Rightarrow> nat \<Rightarrow> app \<Rightarrow> outcome" where
  "deploy_build w r s =
     (let project = heap s r in
      case buildCommand project of
        None \<Rightarrow> (None, s)
      | Some command \<Rightarrow>
          if command = [] then (None, s)
          else
            let s1 = set_status (pid project) RunningBuild s;
                npmCmd = (if isWindows w then ''npm-windows'' else ''npm'');
                s2 = emit (Execute npmCmd [''run'', replace_first ''npm run '' [] command]
                             (projectPath project)) s1
            in (case execute_result w of
                  Inl e \<Rightarrow> (Some (BuildCommandFailed (ExecuteThrew e)), s2)
                | Inr (code, stderr) \<Rightarrow>
                    if code \<noteq> Some 0
                    then (Some (BuildCommandFailed
                                  (if stderr \<noteq> [] then ExitStderr stderr else ExitNoStderr)), s2)
                    else (None, s2)))"

text \<open>Lines 249 and 253-256: the next version, computed from the current version string.\<close>

definition bumpVersion :: "string \<Rightarrow> string" where
  "bumpVersion v =
     (let versionParts = split_on CHR ''.'' v;
          major = parseInt (or_else (index versionParts 0) ''1'');
          minor = parseInt (or_else (index versionParts 1) ''0'');
          patch = num_plus (parseInt (or_else (index versionParts 2) ''0'')) 1
      in dotted major minor patch)"

text \<open>Lines 247-256: record the current version, then bump.\<close>

definition deploy_bump :: "nat \<Rightarrow> app \<Rightarrow> app" where
  "deploy_bump r s =
     (let s1 = set_status (pid (heap s r)) PreparingFiles s;
          current = version (heap s1 r);
          s2 = update_project r (\<lambda>p. p\<lparr>previousVersion := Some current\<rparr>) s1
      in update_project r (\<lambda>p. p\<lparr>version := bumpVersion current\<rparr>) s2)"

text \<open>
  Lines 258-280 (and 352-374 of the rollback): \<^verbatim>\<open>version.json\<close> and then the project list
  are written inside a \<^verbatim>\<open>try\<close> of their own, whose \<^verbatim>\<open>catch\<close> only logs to the console.
\<close>

definition write_version_files :: "io \<Rightarrow> nat \<Rightarrow> app \<Rightarrow> app" where
  "write_version_files w r s =
     (let project = heap s r;
          versionInfo = VersionInfo (version project) (previousVersion project) (updateTime w)
                          (name project) (environment project);
          s1 = emit (WriteVersionJson (path project) versionInfo) s
      in (case writeVersion_result w of
            Some e \<Rightarrow> emit ConsoleError s1
          | None \<Rightarrow>
              let s2 = emit (WriteProjectsJson (snapshot s1)) s1
              in (case writeConfig_result w of
                    Some e \<Rightarrow> emit ConsoleError s2
                  | None \<Rightarrow> s2)))"

text \<open>Lines 284-286 and 378-380.\<close>

definition normalized_remotePath :: "ProjectConfig \<Rightarrow> string" where
  "normalized_remotePath project =
     (if startsWith (remotePath (serverInfo project)) ''/''
      then remotePath (serverInfo project)
      else ''/'' @ remotePath (serverInfo project))"

definition transfer_args :: "ProjectConfig \<Rightarrow> transferArgs" where
  "transfer_args project =
     TransferArgs (name project) (path project) (environment project)
       (host (serverInfo project)) (username (serverInfo project)) (password (serverInfo project))
       (normalized_remotePath project)"

text \<open>Lines 282-302: the deploy time is stored, then the upload is invoked.\<close>

definition deploy_upload :: "io \<Rightarrow> nat \<Rightarrow> app \<Rightarrow> outcome" where
  "deploy_upload w r s =
     (let s1 = set_status (pid (heap s r)) Uploading s;
          s2 = update_project r (\<lambda>p. p\<lparr>lastDeployTime := Some (operationTime w)\<rparr>) s1;
          s3 = emit (Invoke ''deploy_project'' (transfer_args (heap s2 r))) s2
      in (case invoke_result w of
            Some e \<Rightarrow> (Some (InvokeRejected e), s3)
          | None \<Rightarrow> (None, set_status (pid (heap s3 r)) DeployDone s3)))"

text \<open>Lines 226-227: the flag and the first status.\<close>

definition deploy_begin :: "nat \<Rightarrow> app \<Rightarrow> app" where
  "deploy_begin r s =
     set_status (pid (heap s r)) PreparingDeploy (setProjectDeploying (pid (heap s r)) True s)"

text \<open>Lines 229-302: the steps of the \<^verbatim>\<open>try\<close> block after the flag is set.\<close>

definition deploy_steps :: "io \<Rightarrow> nat \<Rightarrow> app \<Rightarrow> outcome" where
  "deploy_steps w r s =
     (case deploy_build w r s of
        (Some e, s1) \<Rightarrow> (Some e, s1)
      | (None, s1) \<Rightarrow> deploy_upload w r (write_version_files w r (deploy_bump r s1)))"

text \<open>Lines 303-308: the \<^verbatim>\<open>catch\<close> block.\<close>

definition deploy_catch :: "error \<Rightarrow> nat \<Rightarrow> app \<Rightarrow> app" where
  "deploy_catch e r s =
     (let s1 = emit (Message (DeployFailedMsg e)) s;
          s2 = (case previousVersion (heap s1 r) of
                  None \<Rightarrow> s1
                | Some previous \<Rightarrow>
                    if previous = [] then s1
                    else update_project r (\<lambda>p. p\<lparr>version := previous\<rparr>) s1)
      in set_status (pid (heap s2 r)) DeployFailed s2)"

text \<open>Lines 309-311: the \<^verbatim>\<open>finally\<close> block.\<close>

definition deploy_finally :: "nat \<Rightarrow> app \<Rightarrow> app" where
  "deploy_finally r s = setProjectDeploying (pid (heap s r)) False s"

text \<open>
  The whole function. The check of \<^verbatim>\<open>remotePath\<close> and its \<^verbatim>\<open>return\<close> stand inside the
  \<^verbatim>\<open>try\<close>, so the \<^verbatim>\<open>finally\<close> block runs after them too.
\<close>

definition deployProject :: "io \<Rightarrow> nat \<Rightarrow> app \<Rightarrow> app" where
  "deployProject w r s =
     (if remotePath (serverInfo (heap s r)) = []
      then deploy_finally r (emit (Message RemotePathEmpty) s)
      else
        (case deploy_steps w r (deploy_begin r s) of
           (None, s1) \<Rightarrow> deploy_finally r s1
         | (Some e, s1) \<Rightarrow> deploy_finally r (deploy_catch e r s1)))"

subsection \<open>rollbackVersion (lines 315-413)\<close>

text \<open>Lines 324-325.\<close>

definition rollback_begin :: "nat \<Rightarrow> app \<Rightarrow> app" where
  "rollback_begin r s =
     set_status (pid (heap s r)) PreparingRollback (setProjectDeploying (pid (heap s r)) True s)"

text \<open>
  Lines 376-401: the remote rollback, then the rollback time and the project list.
\<close>

definition rollback_transfer :: "io \<Rightarrow> nat \<Rightarrow> app \<Rightarrow> outcome" where
  "rollback_transfer w r s =
     (let s1 = set_status (pid (heap s r)) RollingBack s;
          s2 = emit (Invoke ''rollback_project'' (transfer_args (heap s1 r))) s1
      in (case invoke_result w of
            Some e \<Rightarrow> (Some (InvokeRejected e), s2)
          | None \<Rightarrow>
              let s3 = update_project r (\<lambda>p. p\<lparr>lastRollbackTime := Some (operationTime w)\<rparr>) s2;
                  s4 = emit (WriteProjectsJson (snapshot s3)) s3
              in (case finalWrite_result w of
                    Some e \<Rightarrow> (Some (WriteRejected e), s4)
                  | None \<Rightarrow> (None, set_status (pid (heap s4 r)) RollbackDone s4))))"

text \<open>Lines 327-401: the steps of the \<^verbatim>\<open>try\<close> block after the flag is set.\<close>

definition rollback_steps :: "io \<Rightarrow> nat \<Rightarrow> app \<Rightarrow> outcome" where
  "rollback_steps w r s =
     (let project = heap s r in
      case previousVersion project of
        None \<Rightarrow> (Some NoPreviousVersion, s)
      | Some previous \<Rightarrow>
          if previous = [] then (Some NoPreviousVersion, s)
          else
            let currentVersion = version project;
                prevVersionParts = split_on CHR ''.'' previous
            in if length prevVersionParts \<noteq> 3 then (Some MalformedVersion, s)
               else
                 let major = parseInt (or_else (index prevVersionParts 0) ''1'');
                     minor = parseInt (or_else (index prevVersionParts 1) ''0'');
                     patch = parseInt (or_else (index prevVersionParts 2) ''0'')
                 in if isNaN major \<or> isNaN minor \<or> isNaN patch then (Some MalformedVersion, s)
                    else
                      let s1 = update_project r (\<lambda>p. p\<lparr>version := dotted major minor patch\<rparr>) s;
                          s2 = update_project r (\<lambda>p. p\<lparr>previousVersion := Some currentVersion\<rparr>) s1
                      in rollback_transfer w r (write_version_files w r s2))"

text \<open>Lines 402-409: the \<^verbatim>\<open>catch\<close> block.\<close>

definition rollback_catch :: "error \<Rightarrow> nat \<Rightarrow> app \<Rightarrow> app" where
  "rollback_catch e r s =
     (let s1 = emit (Message (RollbackFailedMsg e)) s;
          s2 = (case previousVersion (heap s1 r) of
                  None \<Rightarrow> s1
                | Some previous \<Rightarrow>
                    if previous = [] then s1
                    else
                      let tempVersion = version (heap s1 r)
                      in update_project r
                           (\<lambda>p. p\<lparr>version := previous, previousVersion := Some tempVersion\<rparr>) s1)
      in set_status (pid (heap s2 r)) RollbackFailed s2)"

text \<open>Lines 410-412: the \<^verbatim>\<open>finally\<close> block.\<close>

definition rollback_finally :: "nat \<Rightarrow> app \<Rightarrow> app" where
  "rollback_finally r s = setProjectDeploying (pid (heap s r)) False s"

text \<open>
  The whole function: the confirmation dialog stands before the \<^verbatim>\<open>try\<close>, so declining
  it touches neither the flag nor anything else.
\<close>

definition rollbackVersion :: "io \<Rightarrow> nat \<Rightarrow> app \<Rightarrow> app" where
  "rollbackVersion w r s =
     (let s0 = emit Ask s in
      if \<not> confirmed w then s0
      else
        (case rollback_steps w r (rollback_begin r s0) of
           (None, s1) \<Rightarrow> rollback_finally r s1
         | (Some e, s1) \<Rightarrow> rollback_finally r (rollback_catch e r s1)))"



subsection \<open>saveProject (lines 165-210) and saveEdit (lines 76-97)\<close>

text \<open>\<^verbatim>\<open>Array.prototype.findIndex\<close>; \<open>None\<close> stands for \<^verbatim>\<open>-1\<close>.\<close>

fun findIndex :: "('a \<Rightarrow> bool) \<Rightarrow> 'a list \<Rightarrow> nat option" where
  "findIndex P [] = None"
| "findIndex P (x # xs) = (if P x then Some 0 else map_option Suc (findIndex P xs))"

text \<open>The form data that \<^verbatim>\<open>newProject\<close> is reset to (lines 191-205).\<close>

definition blank_project :: ProjectConfig where
  "blank_project =
     \<lparr>pid = [], name = [], path = [], projectPath = [], buildCommand = None,
      environment = env_prod, version = ''1.0.0'', previousVersion = None,
      lastDeployTime = None, lastRollbackTime = None,
      serverInfo = \<lparr>host = [], username = [], password = [], remotePath = []\<rparr>\<rparr>"

text \<open>
  \<open>appDir_result\<close> is the outcome of the calls that find and create the configuration
  directory, which come first in the \<^verbatim>\<open>try\<close> block.
\<close>

definition saveProject :: "io \<Rightarrow> app \<Rightarrow> app" where
  "saveProject w s =
     (if name (newProject s) = [] \<or> path (newProject s) = []
      then emit (Message NameOrPathMissing) s
      else if truthy (buildCommand (newProject s))
              \<and> \<not> validateBuildCommand (buildCommand (newProject s))
      then emit (Message BuildCommandFormat) s
      else
        (case appDir_result w of
           Some e \<Rightarrow> emit (Message (SaveFailedMsg e)) s
         | None \<Rightarrow>
             let s1 = s\<lparr>newProject := (newProject s)\<lparr>pid := timestamp w\<rparr>\<rparr>;
                 (r, s2) = alloc (newProject s1) s1;
                 s3 = s2\<lparr>projects := projects s2 @ [r]\<rparr>;
                 s4 = emit (WriteProjectsJson (snapshot s3)) s3
             in (case writeConfig_result w of
                   Some e \<Rightarrow> emit (Message (SaveFailedMsg e)) s4
                 | None \<Rightarrow>
                     emit (Message SaveOk)
                       (s4\<lparr>showAddDialog := False, newProject := blank_project\<rparr>))))"

definition saveEdit :: "io \<Rightarrow> app \<Rightarrow> app" where
  "saveEdit w s =
     (case editingProject s of
        None \<Rightarrow> s
      | Some edited \<Rightarrow>
          (case appDir_result w of
             Some e \<Rightarrow> emit (Message (EditFailedMsg e)) s
           | None \<Rightarrow>
               let s1 = (case findIndex (\<lambda>r. pid (heap s r) = pid edited) (projects s) of
                           None \<Rightarrow> s
                         | Some i \<Rightarrow>
                             let (r, s') = alloc edited s
                             in s'\<lparr>projects := (projects s')[i := r]\<rparr>);
                   s2 = emit (WriteProjectsJson (snapshot s1)) s1
               in (case writeConfig_result w of
                     Some e \<Rightarrow> emit (Message (EditFailedMsg e)) s2
                   | None \<Rightarrow>
                       emit (Message EditOk)
                         (s2\<lparr>showEditDialog := False, editingProject := None\<rparr>))))"

subsection \<open>Predicates used to state the properties\<close>

text \<open>
  The build step lets the deploy go on: there is no build command, or the command ran and
  exited with code 0.
\<close>

definition build_ok :: "io \<Rightarrow> ProjectConfig \<Rightarrow> bool" where
  "build_ok w project =
     (case buildCommand project of
        None \<Rightarrow> True
      | Some command \<Rightarrow>
          command = [] \<or>
          (case execute_result w of Inl e \<Rightarrow> False | Inr (code, stderr) \<Rightarrow> code = Some 0))"

text \<open>The version string that the program itself writes for three natural numbers.\<close>

definition triple :: "nat \<Rightarrow> nat \<Rightarrow> nat \<Rightarrow> string" where
  "triple a b c = decimal a @ ''.'' @ decimal b @ ''.'' @ decimal c"

text \<open>A non-empty string of decimal digits (leading zeros allowed).\<close>

definition digit_string :: "string \<Rightarrow> bool" where
  "digit_string ds = (ds \<noteq> [] \<and> list_all (is_radix_digit 10) ds)"

text \<open>
  Characters \<open>j\<close> that may follow the digits \<open>ds\<close> inside one component of a version
  string: no dot, no further digit at the start, and not the \<^verbatim>\<open>x\<close> that would turn a lone
  \<^verbatim>\<open>0\<close> into a hexadecimal prefix.
\<close>

definition trailing_junk :: "string \<Rightarrow> string \<Rightarrow> bool" where
  "trailing_junk ds j =
     (CHR ''.'' \<notin> set j \<and>
      (case j of
         [] \<Rightarrow> True
       | c # cs \<Rightarrow> \<not> is_radix_digit 10 c \<and> \<not> (ds = ''0'' \<and> (c = CHR ''x'' \<or> c = CHR ''X''))))"

text \<open>The effects that reach the remote host: the two transfer commands.\<close>

definition is_transfer :: "effect \<Rightarrow> bool" where
  "is_transfer e = (case e of Invoke command args \<Rightarrow> True | _ \<Rightarrow> False)"

text \<open>
  A natural number that a JavaScript number holds exactly; the properties that speak of the
  numbers in a version string are stated for such numbers.
\<close>

definition safe :: "nat \<Rightarrow> bool" where
  "safe n = (n \<le> MAX_SAFE_INTEGER)"


subsection \<open>Concrete projects and answers used in the examples\<close>

definition shop :: ProjectConfig where
  "shop =
     \<lparr>pid = ''1700000000000'', name = ''shop'', path = ''/work/shop/dist'',
      projectPath = ''/work/shop'', buildCommand = Some ''npm run build:prod'',
      environment = env_prod, version = ''1.0.0'', previousVersion = None,
      lastDeployTime = None, lastRollbackTime = None,
      serverInfo = \<lparr>host = ''10.0.0.5'', username = ''deploy'', password = ''pw'',
                    remotePath = ''/srv/shop''\<rparr>\<rparr>"

text \<open>The application holding one project, stored at reference 0, nothing in flight.\<close>

definition app_with :: "ProjectConfig \<Rightarrow> app" where
  "app_with p =
     \<lparr>heap = (\<lambda>r. p), next_ref = 1, projects = [0],
      deployingProjects = Map.empty, deployStatusMap = Map.empty,
      newProject = blank_project, showAddDialog = False, showEditDialog = False,
      editingProject = None, effects = []\<rparr>"

text \<open>Every call to the outside world succeeds, and the operator confirms.\<close>

definition all_ok :: io where
  "all_ok =
     \<lparr>isWindows = False, confirmed = True, execute_result = Inr (Some 0, []),
      writeVersion_result = None, writeConfig_result = None, updateTime = ''T1'',
      invoke_result = None, operationTime = ''T2'', finalWrite_result = None,
      appDir_result = None, timestamp = ''1700000000001''\<rparr>"

text \<open>A project that has been deployed twice: the rollback slot holds the version before.\<close>

definition released_shop :: ProjectConfig where
  "released_shop = shop\<lparr>version := ''1.0.2'', previousVersion := Some ''1.0.1''\<rparr>"

text \<open>The build command exits with code 1; the upload is refused.\<close>

definition build_fails :: io where
  "build_fails = all_ok\<lparr>execute_result := Inr (Some 1, ''boom'')\<rparr>"

definition upload_refused :: io where
  "upload_refused = all_ok\<lparr>invoke_result := Some ''connection refused''\<rparr>"

text \<open>The same application while an operation on its project is in flight.\<close>

definition busy :: "ProjectConfig \<Rightarrow> app" where
  "busy p =
     (app_with p)\<lparr>deployingProjects := [pid p \<mapsto> True],
                   deployStatusMap := [pid p \<mapsto> \<lparr>isDeploying = True, status = Uploading\<rparr>]\<rparr>"

text \<open>
  Variants of the project: no remote path; a rollback slot with two components only; a
  rollback slot whose components carry a trailing letter and a leading zero, and one with
  longer tails; a build command that is not of the form \<^verbatim>\<open>npm run ...\<close>.
\<close>

definition unconfigured_shop :: ProjectConfig where
  "unconfigured_shop = shop\<lparr>serverInfo := (serverInfo shop)\<lparr>remotePath := []\<rparr>\<rparr>"

definition broken_shop :: ProjectConfig where
  "broken_shop = shop\<lparr>version := ''1.0.2'', previousVersion := Some ''1.0''\<rparr>"

definition sloppy_shop :: ProjectConfig where
  "sloppy_shop = shop\<lparr>version := ''1.0.2'', previousVersion := Some ''1x.02.3''\<rparr>"

definition tagged_shop :: ProjectConfig where
  "tagged_shop = shop\<lparr>version := ''1.0.2'', previousVersion := Some ''01beta.2.3-rc''\<rparr>"

definition tampered_shop :: ProjectConfig where
  "tampered_shop = shop\<lparr>buildCommand := Some ''rm -rf /''\<rparr>"

text \<open>The edit dialog and the add dialog, open on a given form content.\<close>

definition edit_dialog :: "ProjectConfig \<Rightarrow> app" where
  "edit_dialog p = (app_with shop)\<lparr>editingProject := Some p, showEditDialog := True\<rparr>"

definition add_dialog :: "ProjectConfig \<Rightarrow> app" where
  "add_dialog p = (app_with shop)\<lparr>newProject := p, showAddDialog := True\<rparr>"

section \<open>Properties\<close>

declare decimal.simps [simp del]

subsection \<open>The state primitives, field by field\<close>

lemma emit_fields [simp]:
  "heap (emit e s) = heap s"
  "projects (emit e s) = projects s"
  "deployingProjects (emit e s) = deployingProjects s"
  "deployStatusMap (emit e s) = deployStatusMap s"
  "effects (emit e s) = effects s @ [e]"
  by (simp_all add: emit_def)

lemma update_project_fields [simp]:
  "heap (update_project r f s) = (heap s)(r := f (heap s r))"
  "projects (update_project r f s) = projects s"
  "deployingProjects (update_project r f s) = deployingProjects s"
  "deployStatusMap (update_project r f s) = deployStatusMap s"
  "effects (update_project r f s) = effects s"
  by (simp_all add: update_project_def)

lemma set_status_fields [simp]:
  "heap (set_status i t s) = heap s"
  "projects (set_status i t s) = projects s"
  "deployingProjects (set_status i t s) = deployingProjects s"
  "deployStatusMap (set_status i t s) =
     (deployStatusMap s)(i \<mapsto> \<lparr>isDeploying = True, status = t\<rparr>)"
  "effects (set_status i t s) = effects s"
  by (simp_all add: set_status_def)

lemma setProjectDeploying_fields [simp]:
  "heap (setProjectDeploying i b s) = heap s"
  "projects (setProjectDeploying i b s) = projects s"
  "deployingProjects (setProjectDeploying i b s) = (deployingProjects s)(i \<mapsto> b)"
  "deployStatusMap (setProjectDeploying i b s) =
     (if b then deployStatusMap s else (deployStatusMap s)(i := None))"
  "effects (setProjectDeploying i b s) = effects s"
  by (simp_all add: setProjectDeploying_def Let_def)

lemma app_with_fields [simp]:
  "heap (app_with p) = (\<lambda>r. p)"
  "projects (app_with p) = [0]"
  "deployingProjects (app_with p) = Map.empty"
  "deployStatusMap (app_with p) = Map.empty"
  "effects (app_with p) = []"
  by (simp_all add: app_with_def)

lemma busy_fields [simp]:
  "heap (busy p) = (\<lambda>r. p)"
  "projects (busy p) = [0]"
  "deployingProjects (busy p) = [pid p \<mapsto> True]"
  "deployStatusMap (busy p) = [pid p \<mapsto> \<lparr>isDeploying = True, status = Uploading\<rparr>]"
  "effects (busy p) = []"
  by (simp_all add: busy_def)

subsection \<open>Splitting, parsing and rendering\<close>

lemma split_on_no_sep: "sep \<notin> set xs \<Longrightarrow> split_on sep xs = [xs]"
  by (induction xs) auto

lemma split_on_append:
  "sep \<notin> set xs \<Longrightarrow> split_on sep (xs @ sep # ys) = xs # split_on sep ys"
  by (induction xs) auto

lemma split_three:
  assumes "CHR ''.'' \<notin> set x" and "CHR ''.'' \<notin> set y" and "CHR ''.'' \<notin> set z"
  shows "split_on CHR ''.'' (x @ ''.'' @ y @ ''.'' @ z) = [x, y, z]"
  using assms by (simp add: split_on_append split_on_no_sep)



lemma radix_digit_range:
  "is_radix_digit 10 c \<longleftrightarrow> 48 \<le> (of_char c :: nat) \<and> (of_char c :: nat) \<le> 57"
  by (auto simp add: is_radix_digit_def digit_value_def Let_def split: if_splits)

lemma radix_digit_not_dot: "is_radix_digit 10 c \<Longrightarrow> c \<noteq> CHR ''.''"
  by (auto simp add: radix_digit_range)

lemma radix_digit_not_white: "is_radix_digit 10 c \<Longrightarrow> \<not> is_white c"
  by (auto simp add: radix_digit_range is_white_def)

lemma radix_digit_not_sign: "is_radix_digit 10 c \<Longrightarrow> c \<noteq> CHR ''+'' \<and> c \<noteq> CHR ''-''"
  by (auto simp add: radix_digit_range)




lemma digit_string_no_dot: "digit_string ds \<Longrightarrow> CHR ''.'' \<notin> set ds"
  by (auto simp add: digit_string_def list_all_iff dest: radix_digit_not_dot)




text \<open>
  \<open>parseInt\<close> reads the digits at the start of a component and ignores what follows them.
\<close>

lemma parseInt_digits:
  assumes "digit_string ds" and "trailing_junk ds j"
  shows "parseInt (ds @ j) = Num (int (digits_value 10 ds))"
proof -
  obtain d rest where ds: "ds = d # rest"
    using assms(1) by (cases ds) (auto simp: digit_string_def)
  have d: "is_radix_digit 10 d" and rest: "list_all (is_radix_digit 10) rest"
    using assms(1) by (auto simp: digit_string_def ds)
  have w: "dropWhile is_white (ds @ j) = ds @ j"
    using d by (simp add: ds radix_digit_not_white)
  have nohex: "take 2 (ds @ j) \<noteq> ''0x'' \<and> take 2 (ds @ j) \<noteq> ''0X''"
  proof (cases rest)
    case Nil
    show ?thesis
    proof (cases j)
      case Nil
      then show ?thesis by (simp add: ds \<open>rest = []\<close>)
    next
      case (Cons c cs)
      then show ?thesis
        using assms(2) by (auto simp add: ds \<open>rest = []\<close> trailing_junk_def)
    qed
  next
    case (Cons e es)
    then have "is_radix_digit 10 e" using rest by simp
    then have "e \<noteq> CHR ''x'' \<and> e \<noteq> CHR ''X''" by (auto simp add: radix_digit_range)
    then show ?thesis by (auto simp add: ds Cons)
  qed
  have tw: "takeWhile (is_radix_digit 10) (ds @ j) = ds"
  proof -
    have "takeWhile (is_radix_digit 10) j = []"
      using assms(2) by (cases j) (auto simp: trailing_junk_def)
    moreover have "\<And>x. x \<in> set ds \<Longrightarrow> is_radix_digit 10 x"
      using assms(1) by (simp add: digit_string_def list_all_iff)
    ultimately show ?thesis by simp
  qed
  have sgn: "d \<noteq> CHR ''+'' \<and> d \<noteq> CHR ''-''"
    using d radix_digit_not_sign by blast
  have c1: "(case ds @ j of [] \<Rightarrow> 1 | c # cs \<Rightarrow> if c = CHR ''-'' then - 1 else (1 :: int)) = 1"
    using sgn by (simp add: ds)
  have c2: "(case ds @ j of [] \<Rightarrow> ds @ j
             | c # cs \<Rightarrow> if c = CHR ''+'' \<or> c = CHR ''-'' then cs else ds @ j) = ds @ j"
    using sgn by (simp add: ds)
  have ne: "ds \<noteq> []" by (simp add: ds)
  show ?thesis
    unfolding parseInt_def Let_def w c1 c2
    using nohex by (simp add: tw ne)
qed


lemma toString_nat: "toString (Num (int n)) = decimal n"
  by (simp add: toString_def)

lemma dotted_nat: "dotted (Num (int a)) (Num (int b)) (Num (int c)) = triple a b c"
  by (simp add: dotted_def triple_def toString_nat)

lemma or_else_nonempty: "v \<noteq> [] \<Longrightarrow> or_else (Some v) d = v"
  by (simp add: or_else_def)

lemma component_parts:
  assumes "digit_string ds" and "trailing_junk ds j"
  shows "CHR ''.'' \<notin> set (ds @ j)" and "ds @ j \<noteq> []"
  using assms by (auto simp add: digit_string_no_dot trailing_junk_def digit_string_def)



subsection \<open>bumpVersion on one, two and three components\<close>

lemma bump_100: "bumpVersion ''1.0.0'' = ''1.0.1''"
  by code_simp




subsection \<open>The steps of deployProject\<close>

lemma deploy_begin_fields [simp]:
  "heap (deploy_begin r s) = heap s"
  "projects (deploy_begin r s) = projects s"
  "deployingProjects (deploy_begin r s) = (deployingProjects s)(pid (heap s r) \<mapsto> True)"
  "effects (deploy_begin r s) = effects s"
  by (simp_all add: deploy_begin_def)

lemma deploy_build_frame [simp]:
  "heap (snd (deploy_build w r s)) = heap s"
  "projects (snd (deploy_build w r s)) = projects s"
  "deployingProjects (snd (deploy_build w r s)) = deployingProjects s"
  by (simp_all add: deploy_build_def Let_def split: option.splits sum.splits prod.splits)

lemma deploy_build_passes: "fst (deploy_build w r s) = None \<longleftrightarrow> build_ok w (heap s r)"
  by (simp add: deploy_build_def build_ok_def Let_def
        split: option.splits sum.splits prod.splits)

lemma deploy_bump_fields [simp]:
  "heap (deploy_bump r s) =
     (heap s)(r := (heap s r)\<lparr>previousVersion := Some (version (heap s r)),
                              version := bumpVersion (version (heap s r))\<rparr>)"
  "projects (deploy_bump r s) = projects s"
  "deployingProjects (deploy_bump r s) = deployingProjects s"
  "effects (deploy_bump r s) = effects s"
  by (simp_all add: deploy_bump_def Let_def)

lemma write_version_files_frame [simp]:
  "heap (write_version_files w r s) = heap s"
  "projects (write_version_files w r s) = projects s"
  "deployingProjects (write_version_files w r s) = deployingProjects s"
  "deployStatusMap (write_version_files w r s) = deployStatusMap s"
  by (simp_all add: write_version_files_def Let_def split: option.splits)

lemma deploy_upload_frame [simp]:
  "heap (snd (deploy_upload w r s)) =
     (heap s)(r := (heap s r)\<lparr>lastDeployTime := Some (operationTime w)\<rparr>)"
  "projects (snd (deploy_upload w r s)) = projects s"
  "deployingProjects (snd (deploy_upload w r s)) = deployingProjects s"
  "fst (deploy_upload w r s) = map_option InvokeRejected (invoke_result w)"
  by (simp_all add: deploy_upload_def Let_def split: option.splits)

lemma deploy_catch_frame [simp]:
  "projects (deploy_catch e r s) = projects s"
  "deployingProjects (deploy_catch e r s) = deployingProjects s"
  "pid (heap (deploy_catch e r s) q) = pid (heap s q)"
  "heap (deploy_catch e r s) =
     (case previousVersion (heap s r) of
        None \<Rightarrow> heap s
      | Some previous \<Rightarrow>
          if previous = [] then heap s
          else (heap s)(r := (heap s r)\<lparr>version := previous\<rparr>))"
  by (simp_all add: deploy_catch_def Let_def split: option.splits)

lemma deploy_finally_fields [simp]:
  "heap (deploy_finally r s) = heap s"
  "projects (deploy_finally r s) = projects s"
  "deployingProjects (deploy_finally r s) = (deployingProjects s)(pid (heap s r) \<mapsto> False)"
  "deployStatusMap (deploy_finally r s) = (deployStatusMap s)(pid (heap s r) := None)"
  "effects (deploy_finally r s) = effects s"
  by (simp_all add: deploy_finally_def)

text \<open>The case distinctions on a step's pair, written on its two components.\<close>

lemma deploy_steps_by_parts:
  "deploy_steps w r s =
     (case fst (deploy_build w r s) of
        Some e \<Rightarrow> deploy_build w r s
      | None \<Rightarrow>
          deploy_upload w r (write_version_files w r (deploy_bump r (snd (deploy_build w r s)))))"
  by (simp add: deploy_steps_def split: prod.splits option.splits)

lemma deployProject_by_parts:
  "deployProject w r s =
     (if remotePath (serverInfo (heap s r)) = []
      then deploy_finally r (emit (Message RemotePathEmpty) s)
      else (case fst (deploy_steps w r (deploy_begin r s)) of
              None \<Rightarrow> deploy_finally r (snd (deploy_steps w r (deploy_begin r s)))
            | Some e \<Rightarrow>
                deploy_finally r (deploy_catch e r (snd (deploy_steps w r (deploy_begin r s))))))"
  by (simp add: deployProject_def split: prod.splits option.splits)

lemma deploy_steps_frame [simp]:
  "deployingProjects (snd (deploy_steps w r s)) = deployingProjects s"
  "projects (snd (deploy_steps w r s)) = projects s"
  "pid (heap (snd (deploy_steps w r s)) q) = pid (heap s q)"
  by (simp_all add: deploy_steps_by_parts split: option.splits)



text \<open>
  A deploy whose build step fails: the rollback slot stays, no transfer is invoked, and the
  \<^verbatim>\<open>catch\<close> block puts a non-empty \<open>previousVersion\<close> into \<open>version\<close>. A deploy whose
  build step passes stores the deploy time, whatever the upload answers.
\<close>

lemma deploy_build_effects:
  "filter is_transfer (effects (snd (deploy_build w r s))) = filter is_transfer (effects s)"
  by (simp add: deploy_build_def is_transfer_def Let_def
        split: option.splits sum.splits prod.splits)

lemma deploy_catch_effects:
  "filter is_transfer (effects (deploy_catch e r s)) = filter is_transfer (effects s)"
  by (simp add: deploy_catch_def is_transfer_def Let_def split: option.splits)

lemma failed_build_outcome:
  assumes "remotePath (serverInfo (heap s r)) \<noteq> []"
    and "\<not> build_ok w (heap s r)"
  shows "previousVersion (heap (deployProject w r s) r) = previousVersion (heap s r)"
    and "version (heap (deployProject w r s) r) =
           (case previousVersion (heap s r) of
              None \<Rightarrow> version (heap s r)
            | Some previous \<Rightarrow> if previous = [] then version (heap s r) else previous)"
    and "filter is_transfer (effects (deployProject w r s)) = filter is_transfer (effects s)"
proof -
  have failed: "fst (deploy_build w r (deploy_begin r s)) \<noteq> None"
    using assms(2) by (simp add: deploy_build_passes)
  then obtain e where e: "fst (deploy_build w r (deploy_begin r s)) = Some e"
    by blast
  have d: "deployProject w r s =
             deploy_finally r (deploy_catch e r (snd (deploy_build w r (deploy_begin r s))))"
    using assms(1) e by (simp add: deployProject_by_parts deploy_steps_by_parts)
  show "previousVersion (heap (deployProject w r s) r) = previousVersion (heap s r)"
    by (simp add: d split: option.splits)
  show "version (heap (deployProject w r s) r) =
           (case previousVersion (heap s r) of
              None \<Rightarrow> version (heap s r)
            | Some previous \<Rightarrow> if previous = [] then version (heap s r) else previous)"
    by (simp add: d split: option.splits)
  show "filter is_transfer (effects (deployProject w r s)) = filter is_transfer (effects s)"
    by (simp add: d deploy_catch_effects deploy_build_effects)
qed

lemma deploy_time_is_stored_before_upload:
  assumes "remotePath (serverInfo (heap s r)) \<noteq> []"
    and "build_ok w (heap s r)"
  shows "lastDeployTime (heap (deployProject w r s) r) = Some (operationTime w)"
proof -
  have passed: "fst (deploy_build w r (deploy_begin r s)) = None"
    using assms(2) by (simp add: deploy_build_passes)
  show ?thesis
    using assms(1) passed
    by (simp add: deployProject_by_parts deploy_steps_by_parts split: option.splits)
qed

subsection \<open>The steps of rollbackVersion\<close>

lemma rollback_begin_fields [simp]:
  "heap (rollback_begin r s) = heap s"
  "projects (rollback_begin r s) = projects s"
  "deployingProjects (rollback_begin r s) = (deployingProjects s)(pid (heap s r) \<mapsto> True)"
  "effects (rollback_begin r s) = effects s"
  by (simp_all add: rollback_begin_def)

lemma rollback_transfer_frame [simp]:
  "heap (snd (rollback_transfer w r s)) =
     (case invoke_result w of
        Some e \<Rightarrow> heap s
      | None \<Rightarrow> (heap s)(r := (heap s r)\<lparr>lastRollbackTime := Some (operationTime w)\<rparr>))"
  "projects (snd (rollback_transfer w r s)) = projects s"
  "deployingProjects (snd (rollback_transfer w r s)) = deployingProjects s"
  "fst (rollback_transfer w r s) =
     (case invoke_result w of
        Some e \<Rightarrow> Some (InvokeRejected e)
      | None \<Rightarrow> map_option WriteRejected (finalWrite_result w))"
  by (simp_all add: rollback_transfer_def Let_def split: option.splits)

lemma rollback_steps_frame [simp]:
  "deployingProjects (snd (rollback_steps w r s)) = deployingProjects s"
  "projects (snd (rollback_steps w r s)) = projects s"
  "pid (heap (snd (rollback_steps w r s)) q) = pid (heap s q)"
  by (simp_all add: rollback_steps_def Let_def split: option.splits)

lemma rollback_catch_frame [simp]:
  "projects (rollback_catch e r s) = projects s"
  "deployingProjects (rollback_catch e r s) = deployingProjects s"
  "pid (heap (rollback_catch e r s) q) = pid (heap s q)"
  "heap (rollback_catch e r s) =
     (case previousVersion (heap s r) of
        None \<Rightarrow> heap s
      | Some previous \<Rightarrow>
          if previous = [] then heap s
          else (heap s)(r := (heap s r)\<lparr>version := previous,
                                         previousVersion := Some (version (heap s r))\<rparr>))"
  by (simp_all add: rollback_catch_def Let_def split: option.splits)

lemma rollback_finally_fields [simp]:
  "heap (rollback_finally r s) = heap s"
  "projects (rollback_finally r s) = projects s"
  "deployingProjects (rollback_finally r s) = (deployingProjects s)(pid (heap s r) \<mapsto> False)"
  "deployStatusMap (rollback_finally r s) = (deployStatusMap s)(pid (heap s r) := None)"
  "effects (rollback_finally r s) = effects s"
  by (simp_all add: rollback_finally_def)

lemma rollbackVersion_by_parts:
  "rollbackVersion w r s =
     (if \<not> confirmed w then emit Ask s
      else (case fst (rollback_steps w r (rollback_begin r (emit Ask s))) of
              None \<Rightarrow> rollback_finally r (snd (rollback_steps w r (rollback_begin r (emit Ask s))))
            | Some e \<Rightarrow>
                rollback_finally r
                  (rollback_catch e r (snd (rollback_steps w r (rollback_begin r (emit Ask s)))))))"
  by (simp add: rollbackVersion_def Let_def split: prod.splits option.splits)


text \<open>
  A \<open>previousVersion\<close> of three dot-free, non-empty components that \<open>parseInt\<close> can read
  passes the two checks, and the steps go on to the transfer.
\<close>

lemma rollback_steps_accepted:
  assumes "previousVersion (heap s r) = Some (x @ ''.'' @ y @ ''.'' @ z)"
    and "CHR ''.'' \<notin> set x" and "CHR ''.'' \<notin> set y" and "CHR ''.'' \<notin> set z"
    and "x \<noteq> []" and "y \<noteq> []" and "z \<noteq> []"
    and "parseInt x = Num a" and "parseInt y = Num b" and "parseInt z = Num c"
  shows "rollback_steps w r s =
           rollback_transfer w r (write_version_files w r
             (update_project r (\<lambda>p. p\<lparr>previousVersion := Some (version (heap s r))\<rparr>)
               (update_project r (\<lambda>p. p\<lparr>version := dotted (Num a) (Num b) (Num c)\<rparr>) s)))"
proof -
  have sp: "split_on CHR ''.'' (x @ CHR ''.'' # y @ CHR ''.'' # z) = [x, y, z]"
    using split_three[OF assms(2-4)] by simp
  show ?thesis
    using assms(5-)
    by (simp add: rollback_steps_def assms(1) sp Let_def or_else_nonempty numeral_2_eq_2 isNaN_def)
qed

lemma rollback_succeeds:
  assumes "previousVersion (heap s r) = Some (x @ ''.'' @ y @ ''.'' @ z)"
    and "CHR ''.'' \<notin> set x" and "CHR ''.'' \<notin> set y" and "CHR ''.'' \<notin> set z"
    and "x \<noteq> []" and "y \<noteq> []" and "z \<noteq> []"
    and "parseInt x = Num a" and "parseInt y = Num b" and "parseInt z = Num c"
    and "confirmed w" and "invoke_result w = None" and "finalWrite_result w = None"
  shows "heap (rollbackVersion w r s) =
           (heap s)(r := (heap s r)\<lparr>version := dotted (Num a) (Num b) (Num c),
                                    previousVersion := Some (version (heap s r)),
                                    lastRollbackTime := Some (operationTime w)\<rparr>)"
proof -
  let ?s = "rollback_begin r (emit Ask s)"
  have pv: "previousVersion (heap ?s r) = Some (x @ ''.'' @ y @ ''.'' @ z)"
    using assms(1) by simp
  note accepted = rollback_steps_accepted[OF pv assms(2-10), of w]
  show ?thesis
    using assms(11-13) by (simp add: rollbackVersion_by_parts accepted)
qed


text \<open>
  A confirmed rollback that fails one of its two checks: without a \<open>previousVersion\<close> the
  project stays as it was; with one that does not split into three components the
  \<^verbatim>\<open>catch\<close> block swaps it into \<open>version\<close>.
\<close>

lemma rollback_rejected_outcome:
  assumes "confirmed w"
    and "previousVersion (heap s r) = Some previous"
    and "previous \<noteq> []"
    and "length (split_on CHR ''.'' previous) \<noteq> 3"
  shows "version (heap (rollbackVersion w r s) r) = previous"
    and "previousVersion (heap (rollbackVersion w r s) r) = Some (version (heap s r))"
    and "effects (rollbackVersion w r s) = effects s @ [Ask, Message (RollbackFailedMsg MalformedVersion)]"
proof -
  have st: "rollback_steps w r (rollback_begin r (emit Ask s))
              = (Some MalformedVersion, rollback_begin r (emit Ask s))"
    using assms(2-4) by (simp add: rollback_steps_def Let_def)
  show "version (heap (rollbackVersion w r s) r) = previous"
    using assms(1-3) by (simp add: rollbackVersion_by_parts st)
  show "previousVersion (heap (rollbackVersion w r s) r) = Some (version (heap s r))"
    using assms(1-3) by (simp add: rollbackVersion_by_parts st)
  show "effects (rollbackVersion w r s) = effects s @ [Ask, Message (RollbackFailedMsg MalformedVersion)]"
    using assms(1-3) by (simp add: rollbackVersion_by_parts st rollback_catch_def Let_def)
qed

lemma rollback_without_previousVersion:
  assumes "confirmed w"
    and "\<not> truthy (previousVersion (heap s r))"
  shows "heap (rollbackVersion w r s) = heap s"
    and "effects (rollbackVersion w r s) = effects s @ [Ask, Message (RollbackFailedMsg NoPreviousVersion)]"
proof -
  have st: "rollback_steps w r (rollback_begin r (emit Ask s))
              = (Some NoPreviousVersion, rollback_begin r (emit Ask s))"
    using assms(2) by (simp add: rollback_steps_def truthy_def Let_def split: option.splits)
  show "heap (rollbackVersion w r s) = heap s"
    using assms by (simp add: rollbackVersion_by_parts st truthy_def split: option.splits)
  show "effects (rollbackVersion w r s) = effects s @ [Ask, Message (RollbackFailedMsg NoPreviousVersion)]"
    using assms
    by (simp add: rollbackVersion_by_parts st rollback_catch_def truthy_def Let_def
          split: option.splits)
qed

subsection \<open>Neither operation reads the in-flight flag\<close>



















subsection \<open>validateBuildCommand accepts the empty command and \<^verbatim>\<open>npm run <identifier>\<close> only\<close>

lemma validateBuildCommand_iff:
  "validateBuildCommand c \<longleftrightarrow>
     c = None \<or> c = Some [] \<or>
     (\<exists>ident. c = Some (''npm run '' @ ident) \<and> ident \<noteq> [] \<and>
        (\<forall>x \<in> set ident. is_word_char x \<or> x = CHR '':'' \<or> x = CHR ''-''))"
proof (cases c)
  case None
  then show ?thesis by (simp add: validateBuildCommand_def truthy_def)
next
  case (Some command)
  show ?thesis
  proof (cases "command = []")
    case True
    then show ?thesis by (simp add: Some validateBuildCommand_def truthy_def)
  next
    case False
    have "regex_test command \<longleftrightarrow>
            (\<exists>ident. command = ''npm run '' @ ident \<and> ident \<noteq> [] \<and>
               (\<forall>x \<in> set ident. is_word_char x \<or> x = CHR '':'' \<or> x = CHR ''-''))"
      (is "?L \<longleftrightarrow> ?R")
    proof
      assume l: ?L
      then have tk: "take 8 command = ''npm run ''"
        by (simp add: regex_test_def)
      have "command = ''npm run '' @ drop 8 command"
        by (rule sym) (rule append_take_drop_id[of 8 command, unfolded tk])
      with l show ?R
        unfolding regex_test_def list_all_iff by blast
    next
      assume ?R
      then show ?L by (auto simp add: regex_test_def list_all_iff)
    qed
    with False show ?thesis by (simp add: Some validateBuildCommand_def truthy_def)
  qed
qed

text \<open>
  A form whose build command fails the validation is turned away by \<open>saveProject\<close> with a
  message and nothing else.
\<close>

lemma saveProject_rejects_malformed_command:
  assumes "name (newProject s) \<noteq> []" and "path (newProject s) \<noteq> []"
    and "truthy (buildCommand (newProject s))"
    and "\<not> validateBuildCommand (buildCommand (newProject s))"
  shows "saveProject w s = emit (Message BuildCommandFormat) s"
  using assms by (simp add: saveProject_def)

text \<open>\<open>saveEdit\<close> stores the form as it is, whatever its build command.\<close>

lemma findIndex_bound: "findIndex P xs = Some i \<Longrightarrow> i < length xs"
  by (induction xs arbitrary: i) (auto split: if_splits)

lemma saveEdit_stores_the_form:
  assumes "editingProject s = Some edited"
    and "appDir_result w = None"
    and "findIndex (\<lambda>q. pid (heap s q) = pid edited) (projects s) = Some i"
  shows "snapshot (saveEdit w s) ! i = edited"
  using assms findIndex_bound[OF assms(3)]
  by (simp add: saveEdit_def alloc_def snapshot_def emit_def Let_def split: option.splits)

section \<open>The claims\<close>

subsection \<open>C1: the in-flight flag\<close>




subsection \<open>C2: a failed build\<close>

text \<open>
  Claim C2 at a failing input. The project is at version 1.0.2 with 1.0.1 in its rollback
  slot (it has been deployed before), and the build command exits with code 1. No transfer
  is invoked, as the claim says, and \<open>previousVersion\<close> stays; but the \<^verbatim>\<open>catch\<close> block,
  which is there to cancel the bump, runs although nothing was bumped, and \<open>version\<close> ends
  at 1.0.1.
\<close>

theorem failed_build_reverts_version:
  "version (heap (app_with released_shop) 0) = ''1.0.2''
   \<and> previousVersion (heap (app_with released_shop) 0) = Some ''1.0.1''
   \<and> version (heap (deployProject build_fails 0 (app_with released_shop)) 0) = ''1.0.1''
   \<and> previousVersion (heap (deployProject build_fails 0 (app_with released_shop)) 0)
       = Some ''1.0.1''
   \<and> effects (deployProject build_fails 0 (app_with released_shop)) =
       [Execute ''npm'' [''run'', ''build:prod''] ''/work/shop'',
        Message (DeployFailedMsg (BuildCommandFailed (ExitStderr ''boom'')))]"
  by (simp add: deployProject_def deploy_steps_def deploy_build_def deploy_catch_def Let_def
        released_shop_def shop_def build_fails_def all_ok_def)

subsection \<open>C3: rollback without a usable previous version\<close>

text \<open>
  Claim C3 at a failing input. With no \<open>previousVersion\<close> the rollback fails with
  NoPreviousVersion and leaves the project as it was. With the two-component
  \<open>previousVersion\<close> 1.0 it fails with MalformedVersion, as the claim says, but the
  \<^verbatim>\<open>catch\<close> block, which is there to undo the swap, runs although nothing was swapped: the
  malformed string becomes the \<open>version\<close>, and the version becomes the \<open>previousVersion\<close>.
\<close>

theorem malformed_previousVersion_is_swapped_in:
  "version (heap (app_with broken_shop) 0) = ''1.0.2''
   \<and> previousVersion (heap (app_with broken_shop) 0) = Some ''1.0''
   \<and> effects (rollbackVersion all_ok 0 (app_with broken_shop)) =
       [Ask, Message (RollbackFailedMsg MalformedVersion)]
   \<and> version (heap (rollbackVersion all_ok 0 (app_with broken_shop)) 0) = ''1.0''
   \<and> previousVersion (heap (rollbackVersion all_ok 0 (app_with broken_shop)) 0) = Some ''1.0.2''
   \<and> effects (rollbackVersion all_ok 0 (app_with shop)) =
       [Ask, Message (RollbackFailedMsg NoPreviousVersion)]
   \<and> heap (rollbackVersion all_ok 0 (app_with shop)) = heap (app_with shop)"
  by (simp add: rollbackVersion_def rollback_steps_def rollback_catch_def Let_def
        broken_shop_def shop_def all_ok_def)

subsection \<open>C4: a failed upload cancels the bump\<close>

text \<open>
  Claim C4. When the remote upload fails after the version bump has been applied, Deploy
  restores \<open>version\<close> to the value that was current before the bump, which is the value
  this Deploy recorded into \<open>previousVersion\<close>. The version before the bump is a triple,
  so it is not the empty string: the \<^verbatim>\<open>catch\<close> block restores only from a non-empty
  \<open>previousVersion\<close>.
\<close>

theorem failed_upload_restores_version:
  assumes "remotePath (serverInfo (heap s r)) \<noteq> []"
    and "build_ok w (heap s r)"
    and "invoke_result w = Some e"
    and "version (heap s r) \<noteq> []"
  shows "version (heap (deployProject w r s) r) = version (heap s r)
       \<and> previousVersion (heap (deployProject w r s) r) = Some (version (heap s r))"
proof -
  have passed: "fst (deploy_build w r (deploy_begin r s)) = None"
    using assms(2) by (simp add: deploy_build_passes)
  show ?thesis
    using assms(1,3,4) passed by (simp add: deployProject_by_parts deploy_steps_by_parts)
qed

text \<open>
  Witness for C4: the project at 1.0.0, its build passing and its upload refused, is at
  1.0.0 afterwards, with 1.0.0 in the rollback slot.
\<close>

theorem failed_upload_restores_version_witness:
  "remotePath (serverInfo (heap (app_with shop) 0)) \<noteq> []
   \<and> build_ok upload_refused (heap (app_with shop) 0)
   \<and> invoke_result upload_refused = Some ''connection refused''
   \<and> version (heap (deployProject upload_refused 0 (app_with shop)) 0) = ''1.0.0''
   \<and> previousVersion (heap (deployProject upload_refused 0 (app_with shop)) 0) = Some ''1.0.0''"
proof -
  have a: "remotePath (serverInfo (heap (app_with shop) 0)) \<noteq> []"
    by (simp add: shop_def)
  have b: "build_ok upload_refused (heap (app_with shop) 0)"
    by (simp add: build_ok_def shop_def upload_refused_def all_ok_def)
  have c: "invoke_result upload_refused = Some ''connection refused''"
    by (simp add: upload_refused_def all_ok_def)
  have d: "version (heap (app_with shop) 0) \<noteq> []"
    by (simp add: shop_def)
  have v: "version (heap (app_with shop) 0) = ''1.0.0''"
    by (simp add: shop_def)
  show ?thesis
    using failed_upload_restores_version[OF a b c d] a b c v by simp
qed

subsection \<open>C5: the version bump\<close>




subsection \<open>C6: rollback swaps, and undoes itself\<close>



subsection \<open>C7: the deploy time and the persisted list\<close>

text \<open>
  Claim C7 at a failing input. The deploy time is stored before the upload is invoked and
  nothing takes it back: a deploy whose upload is refused leaves \<open>lastDeployTime\<close> set.
  The project list is written once, before the upload (with the bumped version and without
  the deploy time), and not again: after a successful upload the last effect is the upload
  itself. The rollback, by contrast, stores its time and writes the list after the remote
  call has returned.
\<close>

theorem failed_upload_keeps_lastDeployTime:
  "lastDeployTime (heap (app_with shop) 0) = None
   \<and> lastDeployTime (heap (deployProject upload_refused 0 (app_with shop)) 0) = Some ''T2''
   \<and> effects (deployProject upload_refused 0 (app_with shop)) =
       [Execute ''npm'' [''run'', ''build:prod''] ''/work/shop'',
        WriteVersionJson ''/work/shop/dist''
          (VersionInfo ''1.0.1'' (Some ''1.0.0'') ''T1'' ''shop'' env_prod),
        WriteProjectsJson [shop\<lparr>version := ''1.0.1'', previousVersion := Some ''1.0.0''\<rparr>],
        Invoke ''deploy_project''
          (TransferArgs ''shop'' ''/work/shop/dist'' env_prod ''10.0.0.5'' ''deploy'' ''pw''
             ''/srv/shop''),
        Message (DeployFailedMsg (InvokeRejected ''connection refused''))]
   \<and> effects (deployProject all_ok 0 (app_with shop)) =
       [Execute ''npm'' [''run'', ''build:prod''] ''/work/shop'',
        WriteVersionJson ''/work/shop/dist''
          (VersionInfo ''1.0.1'' (Some ''1.0.0'') ''T1'' ''shop'' env_prod),
        WriteProjectsJson [shop\<lparr>version := ''1.0.1'', previousVersion := Some ''1.0.0''\<rparr>],
        Invoke ''deploy_project''
          (TransferArgs ''shop'' ''/work/shop/dist'' env_prod ''10.0.0.5'' ''deploy'' ''pw''
             ''/srv/shop'')]"
  by (simp add: deployProject_def deploy_steps_def deploy_build_def deploy_bump_def
        write_version_files_def deploy_upload_def deploy_catch_def snapshot_def
        transfer_args_def normalized_remotePath_def startsWith_def Let_def bump_100
        shop_def upload_refused_def all_ok_def)

subsection \<open>C8: the build command is validated when a project is added, not when it is edited\<close>

text \<open>
  Claim C8 at a failing input. \<open>validateBuildCommand\<close> refuses \<^verbatim>\<open>rm -rf /\<close>, and
  \<open>saveProject\<close> turns a new project with that command away with a message, the project list
  unchanged. \<open>saveEdit\<close> does not validate: the same command, typed into the edit dialog,
  is stored in the project list and written to the configuration file.
\<close>

theorem saveEdit_stores_unvalidated_command:
  "\<not> validateBuildCommand (Some ''rm -rf /'')
   \<and> buildCommand tampered_shop = Some ''rm -rf /''
   \<and> snapshot (saveEdit all_ok (edit_dialog tampered_shop)) = [tampered_shop]
   \<and> effects (saveEdit all_ok (edit_dialog tampered_shop)) =
       [WriteProjectsJson [tampered_shop], Message EditOk]
   \<and> snapshot (saveProject all_ok (add_dialog tampered_shop)) = [shop]
   \<and> effects (saveProject all_ok (add_dialog tampered_shop)) = [Message BuildCommandFormat]"
proof -
  have v: "\<not> validateBuildCommand (Some ''rm -rf /'')"
    by code_simp
  have t: "truthy (Some ''rm -rf /'')"
    by (simp add: truthy_def)
  show ?thesis
    by (simp add: v t saveEdit_def saveProject_def alloc_def snapshot_def emit_def Let_def
          edit_dialog_def add_dialog_def app_with_def tampered_shop_def shop_def all_ok_def)
qed

subsection \<open>C9: deploy without a remote path\<close>

text \<open>
  Claim C9, as stated, fails: the \<^verbatim>\<open>return\<close> after the check stands inside the \<^verbatim>\<open>try\<close>,
  so the \<^verbatim>\<open>finally\<close> block runs. Called on a project whose flag is set, the rejected deploy
  clears the flag and removes the status entry; called on a project without a flag, it
  leaves an entry (false) in the map of flags.
\<close>

theorem empty_remotePath_clears_flag:
  "remotePath (serverInfo (heap (busy unconfigured_shop) 0)) = []
   \<and> isProjectDeploying (pid unconfigured_shop) (busy unconfigured_shop)
   \<and> \<not> isProjectDeploying (pid unconfigured_shop)
         (deployProject all_ok 0 (busy unconfigured_shop))
   \<and> deployStatusMap (busy unconfigured_shop) (pid unconfigured_shop)
       = Some \<lparr>isDeploying = True, status = Uploading\<rparr>
   \<and> deployStatusMap (deployProject all_ok 0 (busy unconfigured_shop)) (pid unconfigured_shop)
       = None
   \<and> deployingProjects (app_with unconfigured_shop) (pid unconfigured_shop) = None
   \<and> deployingProjects (deployProject all_ok 0 (app_with unconfigured_shop))
        (pid unconfigured_shop) = Some False"
  by (simp add: deployProject_def isProjectDeploying_def unconfigured_shop_def shop_def)

text \<open>
  Claim C9, amended. A deploy of a project whose \<open>remotePath\<close> is empty shows the message
  and runs no other step: the project objects and the project list are as before, nothing is
  built, written or transferred, and the flag is never set to true. The \<^verbatim>\<open>finally\<close> block
  still runs: the flag of the project ends false and its status entry is removed, so for a
  project that had no operation in flight every flag reads as before.
\<close>

theorem empty_remotePath_is_rejected:
  assumes "remotePath (serverInfo (heap s r)) = []"
  shows "deployProject w r s =
           s\<lparr>deployingProjects := (deployingProjects s)(pid (heap s r) \<mapsto> False),
              deployStatusMap := (deployStatusMap s)(pid (heap s r) := None),
              effects := effects s @ [Message RemotePathEmpty]\<rparr>
       \<and> (\<not> isProjectDeploying (pid (heap s r)) s \<longrightarrow>
            (\<forall>i. isProjectDeploying i (deployProject w r s) = isProjectDeploying i s))"
proof -
  have exact: "deployProject w r s =
           s\<lparr>deployingProjects := (deployingProjects s)(pid (heap s r) \<mapsto> False),
              deployStatusMap := (deployStatusMap s)(pid (heap s r) := None),
              effects := effects s @ [Message RemotePathEmpty]\<rparr>"
    using assms
    by (simp add: deployProject_def deploy_finally_def setProjectDeploying_def emit_def Let_def)
  have "isProjectDeploying i (deployProject w r s) = isProjectDeploying i s"
    if "\<not> isProjectDeploying (pid (heap s r)) s" for i
    using that by (simp add: exact isProjectDeploying_def split: option.splits)
  with exact show ?thesis by blast
qed

text \<open>
  Witness for C9 (amended): the project without a remote path, nothing in flight; the only
  effect is the message, the project is as before, and no flag reads true.
\<close>

theorem empty_remotePath_is_rejected_witness:
  "remotePath (serverInfo (heap (app_with unconfigured_shop) 0)) = []
   \<and> \<not> isProjectDeploying (pid unconfigured_shop) (app_with unconfigured_shop)
   \<and> effects (deployProject all_ok 0 (app_with unconfigured_shop)) = [Message RemotePathEmpty]
   \<and> heap (deployProject all_ok 0 (app_with unconfigured_shop)) 0 = unconfigured_shop
   \<and> \<not> isProjectDeploying (pid unconfigured_shop)
         (deployProject all_ok 0 (app_with unconfigured_shop))"
proof -
  have a: "remotePath (serverInfo (heap (app_with unconfigured_shop) 0)) = []"
    by (simp add: unconfigured_shop_def)
  have n: "\<not> isProjectDeploying (pid unconfigured_shop) (app_with unconfigured_shop)"
    by (simp add: isProjectDeploying_def)
  note th = empty_remotePath_is_rejected[OF a, of all_ok]
  have same: "isProjectDeploying (pid unconfigured_shop)
                (deployProject all_ok 0 (app_with unconfigured_shop))
              = isProjectDeploying (pid unconfigured_shop) (app_with unconfigured_shop)"
    using th n by (simp add: isProjectDeploying_def)
  have state: "effects (deployProject all_ok 0 (app_with unconfigured_shop))
                 = [Message RemotePathEmpty]
               \<and> heap (deployProject all_ok 0 (app_with unconfigured_shop)) 0 = unconfigured_shop"
    using th by simp
  show ?thesis
    using a n same state by blast
qed

subsection \<open>C10: what the rollback takes for an integer\<close>

text \<open>
  Claim C10. The rollback reads each component of \<open>previousVersion\<close> with \<open>parseInt\<close>: a
  component made of decimal digits (leading zeros included) followed by characters that are
  not digits passes the check as the number its digits spell, and the restored \<open>version\<close>
  is the rendering of the three numbers, which need not be the stored string: from the
  stored 1x.02.3 the rollback restores 1.2.3.
\<close>

theorem rollback_reads_components_with_parseInt:
  assumes "digit_string da" and "digit_string db" and "digit_string dc"
    and "trailing_junk da ja" and "trailing_junk db jb" and "trailing_junk dc jc"
    and "safe (digits_value 10 da)" and "safe (digits_value 10 db)"
    and "safe (digits_value 10 dc)"
    and "previousVersion (heap s r) = Some ((da @ ja) @ ''.'' @ (db @ jb) @ ''.'' @ (dc @ jc))"
    and "confirmed w" and "invoke_result w = None" and "finalWrite_result w = None"
  shows "version (heap (rollbackVersion w r s) r)
           = triple (digits_value 10 da) (digits_value 10 db) (digits_value 10 dc)
       \<and> previousVersion (heap (rollbackVersion w r s) r) = Some (version (heap s r))
       \<and> lastRollbackTime (heap (rollbackVersion w r s) r) = Some (operationTime w)
       \<and> previousVersion (heap (app_with sloppy_shop) 0) = Some ''1x.02.3''
       \<and> version (heap (rollbackVersion all_ok 0 (app_with sloppy_shop)) 0) = ''1.2.3''"
proof -
  note a = component_parts[OF assms(1) assms(4)]
  note b = component_parts[OF assms(2) assms(5)]
  note c = component_parts[OF assms(3) assms(6)]
  note general = rollback_succeeds[OF assms(10) a(1) b(1) c(1) a(2) b(2) c(2)
      parseInt_digits[OF assms(1) assms(4)] parseInt_digits[OF assms(2) assms(5)]
      parseInt_digits[OF assms(3) assms(6)] assms(11-13)]
  have sp: "split_on CHR ''.'' ''1x.02.3'' = [''1x'', ''02'', ''3'']"
    by simp
  have p: "parseInt ''1x'' = Num 1" "parseInt ''02'' = Num 2" "parseInt ''3'' = Num 3"
    by code_simp+
  have d: "dotted (Num 1) (Num 2) (Num 3) = ''1.2.3''"
    by code_simp
  have concrete: "version (heap (rollbackVersion all_ok 0 (app_with sloppy_shop)) 0) = ''1.2.3''"
    by (simp add: rollbackVersion_by_parts rollback_steps_def Let_def sp p d or_else_def
          isNaN_def numeral_2_eq_2 sloppy_shop_def shop_def all_ok_def)
  show ?thesis
    by (simp add: general dotted_nat concrete) (simp add: sloppy_shop_def)
qed

text \<open>
  Witness for C10: from the stored 01beta.2.3-rc the rollback restores 1.2.3.
\<close>

theorem rollback_reads_components_with_parseInt_witness:
  "digit_string ''01'' \<and> trailing_junk ''01'' ''beta''
   \<and> digit_string ''2'' \<and> trailing_junk ''2'' []
   \<and> digit_string ''3'' \<and> trailing_junk ''3'' ''-rc''
   \<and> previousVersion (heap (app_with tagged_shop) 0) = Some ''01beta.2.3-rc''
   \<and> version (heap (rollbackVersion all_ok 0 (app_with tagged_shop)) 0) = ''1.2.3''
   \<and> previousVersion (heap (rollbackVersion all_ok 0 (app_with tagged_shop)) 0) = Some ''1.0.2''"
proof -
  have ds: "digit_string ''01''" "digit_string ''2''" "digit_string ''3''"
    by code_simp+
  have js: "trailing_junk ''01'' ''beta''" "trailing_junk ''2'' []" "trailing_junk ''3'' ''-rc''"
    by code_simp+
  have dv: "digits_value 10 ''01'' = 1" "digits_value 10 ''2'' = 2" "digits_value 10 ''3'' = 3"
    by code_simp+
  have sf: "safe (digits_value 10 ''01'')" "safe (digits_value 10 ''2'')"
    "safe (digits_value 10 ''3'')"
    by (simp_all add: dv safe_def MAX_SAFE_INTEGER_def)
  have t: "triple (digits_value 10 ''01'') (digits_value 10 ''2'') (digits_value 10 ''3'')
             = ''1.2.3''"
    by code_simp
  have pv: "previousVersion (heap (app_with tagged_shop) 0)
              = Some ((''01'' @ ''beta'') @ ''.'' @ (''2'' @ []) @ ''.'' @ (''3'' @ ''-rc''))"
    by (simp add: tagged_shop_def)
  have k: "confirmed all_ok" "invoke_result all_ok = None" "finalWrite_result all_ok = None"
    by (simp_all add: all_ok_def)
  have v: "version (heap (app_with tagged_shop) 0) = ''1.0.2''"
    by (simp add: tagged_shop_def)
  note th = rollback_reads_components_with_parseInt[OF ds(1) ds(2) ds(3) js(1) js(2) js(3)
      sf(1) sf(2) sf(3) pv k(1) k(2) k(3)]
  show ?thesis
    using th ds js v by (simp add: t tagged_shop_def)
qed

end
